theory Spec2Isabelle
  imports Main
begin

section \<open>Data model\<close>

text \<open>
  The artifact types come from the gemara library (packages layer1, layer2, layer3).
  Each struct is a record holding the fields the server reads, together with the
  fields the design document lists for it. Field names carry the name of their struct,
  since several structs have an \<open>Id\<close>, a \<open>Title\<close> or an \<open>Applicability\<close>.
  Go strings are byte strings: \<open>string\<close>. A slice is a list (a nil slice and an
  empty slice are both \<open>[]\<close>), a pointer that may be nil is an \<open>option\<close>.
\<close>

subsection \<open>Layer 1: guidance documents\<close>

record Applicability =
  TechnologyDomains :: "string list"
  IndustrySectors :: "string list"
  Jurisdictions :: "string list"

record GuidanceMetadata =
  GuidanceMetadata_Id :: string
  GuidanceMetadata_Title :: string
  GuidanceMetadata_Applicability :: "Applicability option"

record Guideline =
  Guideline_Id :: string
  Guideline_Title :: string
  Guideline_Objective :: string
  Guideline_Recommendations :: "string list"

record Category =
  Category_Id :: string
  Category_Title :: string
  Category_Description :: string
  Category_Guidelines :: "Guideline list"

record GuidanceDocument =
  GuidanceDocument_Metadata :: GuidanceMetadata
  GuidanceDocument_Categories :: "Category list"

subsection \<open>Layer 2: control catalogs\<close>

record ApplicabilityCategory =
  ApplicabilityCategory_Id :: string
  ApplicabilityCategory_Title :: string

record CatalogMetadata =
  CatalogMetadata_Id :: string
  CatalogMetadata_ApplicabilityCategories :: "ApplicabilityCategory list"

record AssessmentRequirement =
  AssessmentRequirement_Id :: string
  AssessmentRequirement_Applicability :: "string list"

record MappingEntry =
  MappingEntry_ReferenceId :: string

record GuidelineMapping =
  GuidelineMapping_ReferenceId :: string
  GuidelineMapping_Entries :: "MappingEntry list"

record Control =
  Control_Id :: string
  Control_Title :: string
  Control_Objective :: string
  Control_AssessmentRequirements :: "AssessmentRequirement list"
  Control_GuidelineMappings :: "GuidelineMapping list"

record ControlFamily =
  ControlFamily_Id :: string
  ControlFamily_Title :: string
  ControlFamily_Controls :: "Control list"

record Catalog =
  Catalog_Metadata :: CatalogMetadata
  Catalog_ControlFamilies :: "ControlFamily list"

subsection \<open>Layer 3: mappings of modifiers\<close>

text \<open>
  \<open>layer3.ModType\<close> is a string type: the server converts the request's string to it.
  Of \<open>layer3.Scope\<close>, \<open>layer3.AssessmentRequirementModifier\<close> and
  \<open>layer3.GuidelineModifier\<close> the server only ever builds the zero value and the empty
  slice, so a scope is the list of its entries and the two modifier types stay opaque.
\<close>

type_synonym ModType = string

datatype Scope = Scope "string list"

typedecl AssessmentRequirementModifier

typedecl GuidelineModifier

record ControlModifier =
  TargetId :: string
  ModType :: ModType
  ModificationRationale :: string
  ControlModifier_Title :: string
  ControlModifier_Objective :: string

record Mapping =
  Mapping_ReferenceId :: string
  ControlModifications :: "ControlModifier list"
  InScope :: Scope
  OutOfScope :: Scope
  AssessmentRequirementModifications :: "AssessmentRequirementModifier list"
  GuidelineModifications :: "GuidelineModifier list"

section \<open>Guidance applicability filter\<close>

text \<open>
  The request parameters of \<open>handleImportGuidelinesByCriteria\<close>, as bound from the
  request. An optional string that was not supplied is the empty string.
\<close>

record GuidelinesParams =
  GuidelinesParams_FilePath :: string
  Technology :: string
  Sector :: string
  Jurisdiction :: string

text \<open>
  \<open>strings.EqualFold\<close> is a function of the Go standard library; the filter takes it
  as its first argument \<open>ef\<close>. The loop
  \<^verbatim>\<open>found := false; for _, tech := range xs { if EqualFold(tech, c) { found = true; break } }\<close>
  is \<open>found\<close>.
\<close>

fun found :: "(string \<Rightarrow> string \<Rightarrow> bool) \<Rightarrow> string list \<Rightarrow> string \<Rightarrow> bool" where
  "found ef [] c = False"
| "found ef (x # xs) c = (if ef x c then True else found ef xs c)"

text \<open>
  The body of the loop over a category's guidelines, up to the test of \<open>matches\<close>.
  The source computes it once for every guideline, so the guideline is an argument.
\<close>

definition matches :: "(string \<Rightarrow> string \<Rightarrow> bool) \<Rightarrow> GuidanceDocument \<Rightarrow> GuidelinesParams \<Rightarrow>
    Guideline \<Rightarrow> bool" where
  "matches ef doc params guideline =
     (case GuidanceMetadata_Applicability (GuidanceDocument_Metadata doc) of
        Some applicability \<Rightarrow>
          (let m0 = True;
               m1 = (if Technology params \<noteq> ''''
                     then (if \<not> found ef (TechnologyDomains applicability) (Technology params)
                           then False else m0)
                     else m0);
               m2 = (if Sector params \<noteq> ''''
                     then (if \<not> found ef (IndustrySectors applicability) (Sector params)
                           then False else m1)
                     else m1);
               m3 = (if Jurisdiction params \<noteq> ''''
                     then (if \<not> found ef (Jurisdictions applicability) (Jurisdiction params)
                           then False else m2)
                     else m2)
           in m3)
      | None \<Rightarrow>
          (if Technology params \<noteq> '''' \<or> Sector params \<noteq> '''' \<or> Jurisdiction params \<noteq> ''''
           then False else True))"

text \<open>
  The inner loop: \<open>matchingGuidelines\<close> starts empty and every matching guideline is
  appended to it.
\<close>

fun matchingGuidelines :: "(string \<Rightarrow> string \<Rightarrow> bool) \<Rightarrow> GuidanceDocument \<Rightarrow> GuidelinesParams \<Rightarrow>
    Guideline list \<Rightarrow> Guideline list \<Rightarrow> Guideline list" where
  "matchingGuidelines ef doc params [] acc = acc"
| "matchingGuidelines ef doc params (guideline # rest) acc =
     matchingGuidelines ef doc params rest
       (if matches ef doc params guideline then acc @ [guideline] else acc)"

text \<open>
  The outer loop: a category with at least one matching guideline is copied, its
  guidelines replaced by the matching ones, and appended to \<open>filteredCategories\<close>.
\<close>

fun filteredCategories :: "(string \<Rightarrow> string \<Rightarrow> bool) \<Rightarrow> GuidanceDocument \<Rightarrow> GuidelinesParams \<Rightarrow>
    Category list \<Rightarrow> Category list \<Rightarrow> Category list" where
  "filteredCategories ef doc params [] acc = acc"
| "filteredCategories ef doc params (category # rest) acc =
     (let mg = matchingGuidelines ef doc params (Category_Guidelines category) []
      in filteredCategories ef doc params rest
           (if length mg > 0 then acc @ [category\<lparr>Category_Guidelines := mg\<rparr>] else acc))"

text \<open>The filtered document: a copy of the document with the filtered categories.\<close>

definition filteredDoc :: "(string \<Rightarrow> string \<Rightarrow> bool) \<Rightarrow> GuidelinesParams \<Rightarrow> GuidanceDocument \<Rightarrow>
    GuidanceDocument" where
  "filteredDoc ef params doc =
     doc\<lparr>GuidanceDocument_Categories :=
           filteredCategories ef doc params (GuidanceDocument_Categories doc) []\<rparr>"

section \<open>Control label filter\<close>

record ControlsParams =
  ControlsParams_FilePath :: string
  Labels :: "string list"

text \<open>
  \<open>labelMap\<close> is a Go \<open>map[string]bool\<close>: reading a key that was never stored gives
  \<open>false\<close>. \<open>strings.ToLower\<close> is a function of the Go standard library; the filter
  takes it as its first argument \<open>lower\<close>.
\<close>

type_synonym LabelMap = "string \<rightharpoonup> bool"

definition index :: "LabelMap \<Rightarrow> string \<Rightarrow> bool" where
  "index m k = (case m k of Some b \<Rightarrow> b | None \<Rightarrow> False)"

fun labelMap :: "(string \<Rightarrow> string) \<Rightarrow> string list \<Rightarrow> LabelMap \<Rightarrow> LabelMap" where
  "labelMap lower [] m = m"
| "labelMap lower (label # rest) m = labelMap lower rest (m(lower label \<mapsto> True))"

text \<open>
  The loop over one requirement's applicability entries, the loop over a control's
  assessment requirements, and the loop over the catalog's applicability categories.
  Each stops at the first hit; its value is \<open>matches\<close> after the loop.
\<close>

fun applicabilityLoop :: "(string \<Rightarrow> string) \<Rightarrow> LabelMap \<Rightarrow> string list \<Rightarrow> bool" where
  "applicabilityLoop lower lm [] = False"
| "applicabilityLoop lower lm (app # rest) =
     (if index lm (lower app) then True else applicabilityLoop lower lm rest)"

fun requirementsLoop :: "(string \<Rightarrow> string) \<Rightarrow> LabelMap \<Rightarrow> AssessmentRequirement list \<Rightarrow> bool" where
  "requirementsLoop lower lm [] = False"
| "requirementsLoop lower lm (req # rest) =
     (if applicabilityLoop lower lm (AssessmentRequirement_Applicability req) then True
      else requirementsLoop lower lm rest)"

fun categoriesLoop :: "(string \<Rightarrow> string) \<Rightarrow> LabelMap \<Rightarrow> ApplicabilityCategory list \<Rightarrow> bool" where
  "categoriesLoop lower lm [] = False"
| "categoriesLoop lower lm (cat # rest) =
     (if index lm (lower (ApplicabilityCategory_Id cat)) then True
      else categoriesLoop lower lm rest)"

definition controlMatches :: "(string \<Rightarrow> string) \<Rightarrow> LabelMap \<Rightarrow> Catalog \<Rightarrow> Control \<Rightarrow> bool" where
  "controlMatches lower lm catalog control =
     (let matches = requirementsLoop lower lm (Control_AssessmentRequirements control)
      in if \<not> matches \<and>
            length (CatalogMetadata_ApplicabilityCategories (Catalog_Metadata catalog)) > 0
         then categoriesLoop lower lm
                (CatalogMetadata_ApplicabilityCategories (Catalog_Metadata catalog))
         else matches)"

fun matchingControls :: "(string \<Rightarrow> string) \<Rightarrow> LabelMap \<Rightarrow> Catalog \<Rightarrow> Control list \<Rightarrow>
    Control list \<Rightarrow> Control list" where
  "matchingControls lower lm catalog [] acc = acc"
| "matchingControls lower lm catalog (control # rest) acc =
     matchingControls lower lm catalog rest
       (if controlMatches lower lm catalog control then acc @ [control] else acc)"

fun filteredFamilies :: "(string \<Rightarrow> string) \<Rightarrow> LabelMap \<Rightarrow> Catalog \<Rightarrow> ControlFamily list \<Rightarrow>
    ControlFamily list \<Rightarrow> ControlFamily list" where
  "filteredFamilies lower lm catalog [] acc = acc"
| "filteredFamilies lower lm catalog (family # rest) acc =
     (let mc = matchingControls lower lm catalog (ControlFamily_Controls family) []
      in filteredFamilies lower lm catalog rest
           (if length mc > 0 then acc @ [family\<lparr>ControlFamily_Controls := mc\<rparr>] else acc))"

definition filteredCatalog :: "(string \<Rightarrow> string) \<Rightarrow> string list \<Rightarrow> Catalog \<Rightarrow> Catalog" where
  "filteredCatalog lower labels catalog =
     catalog\<lparr>Catalog_ControlFamilies :=
       filteredFamilies lower (labelMap lower labels Map.empty) catalog
         (Catalog_ControlFamilies catalog) []\<rparr>"

section \<open>Control modifier synthesizer\<close>

record ModifiersParams =
  GuidelinesFile :: string
  ControlsFile :: string
  ModifiersParams_ModificationRationale :: string
  ModifiersParams_ModificationType :: string

text \<open>
  \<open>guidelineMap\<close> is a Go \<open>map[string]layer1.Guideline\<close>, filled by the two nested
  loops over categories and guidelines; a later guideline replaces an earlier one of
  the same id.
\<close>

type_synonym GuidelineMap = "string \<rightharpoonup> Guideline"

fun guidelineMap_category :: "Guideline list \<Rightarrow> GuidelineMap \<Rightarrow> GuidelineMap" where
  "guidelineMap_category [] m = m"
| "guidelineMap_category (guideline # rest) m =
     guidelineMap_category rest (m(Guideline_Id guideline \<mapsto> guideline))"

fun guidelineMap :: "Category list \<Rightarrow> GuidelineMap \<Rightarrow> GuidelineMap" where
  "guidelineMap [] m = m"
| "guidelineMap (category # rest) m =
     guidelineMap rest (guidelineMap_category (Category_Guidelines category) m)"

definition modifier :: "ModifiersParams \<Rightarrow> Control \<Rightarrow> ControlModifier" where
  "modifier params control =
     \<lparr>TargetId = Control_Id control,
      ModType = ModifiersParams_ModificationType params,
      ModificationRationale = ModifiersParams_ModificationRationale params,
      ControlModifier_Title = Control_Title control,
      ControlModifier_Objective = Control_Objective control\<rparr>"

text \<open>
  The four nested loops, innermost first. The loop over a mapping's entries appends a
  modifier at the first entry whose reference is a key of \<open>guidelineMap\<close> and then
  leaves that loop (\<open>break\<close>); the loop over the control's mappings goes on with the
  next mapping.
\<close>

fun entriesLoop :: "GuidelineMap \<Rightarrow> ModifiersParams \<Rightarrow> Control \<Rightarrow> MappingEntry list \<Rightarrow>
    ControlModifier list \<Rightarrow> ControlModifier list" where
  "entriesLoop gm params control [] acc = acc"
| "entriesLoop gm params control (entry # rest) acc =
     (if gm (MappingEntry_ReferenceId entry) \<noteq> None
      then acc @ [modifier params control]
      else entriesLoop gm params control rest acc)"

fun mappingsLoop :: "GuidelineMap \<Rightarrow> ModifiersParams \<Rightarrow> Control \<Rightarrow> GuidelineMapping list \<Rightarrow>
    ControlModifier list \<Rightarrow> ControlModifier list" where
  "mappingsLoop gm params control [] acc = acc"
| "mappingsLoop gm params control (mapping # rest) acc =
     mappingsLoop gm params control rest
       (entriesLoop gm params control (GuidelineMapping_Entries mapping) acc)"

fun controlsLoop :: "GuidelineMap \<Rightarrow> ModifiersParams \<Rightarrow> Control list \<Rightarrow>
    ControlModifier list \<Rightarrow> ControlModifier list" where
  "controlsLoop gm params [] acc = acc"
| "controlsLoop gm params (control # rest) acc =
     controlsLoop gm params rest
       (mappingsLoop gm params control (Control_GuidelineMappings control) acc)"

fun familiesLoop :: "GuidelineMap \<Rightarrow> ModifiersParams \<Rightarrow> ControlFamily list \<Rightarrow>
    ControlModifier list \<Rightarrow> ControlModifier list" where
  "familiesLoop gm params [] acc = acc"
| "familiesLoop gm params (family # rest) acc =
     familiesLoop gm params rest
       (controlsLoop gm params (ControlFamily_Controls family) acc)"

definition controlModifiers :: "ModifiersParams \<Rightarrow> GuidanceDocument \<Rightarrow> Catalog \<Rightarrow>
    ControlModifier list" where
  "controlModifiers params guidelinesDoc controlsCatalog =
     familiesLoop (guidelineMap (GuidanceDocument_Categories guidelinesDoc) Map.empty) params
       (Catalog_ControlFamilies controlsCatalog) []"

text \<open>The Layer 3 mapping structure built from the modifiers.\<close>

definition mapping :: "ModifiersParams \<Rightarrow> GuidanceDocument \<Rightarrow> Catalog \<Rightarrow> Mapping" where
  "mapping params guidelinesDoc controlsCatalog =
     \<lparr>Mapping_ReferenceId = CatalogMetadata_Id (Catalog_Metadata controlsCatalog),
      ControlModifications = controlModifiers params guidelinesDoc controlsCatalog,
      InScope = Scope [],
      OutOfScope = Scope [],
      AssessmentRequirementModifications = [],
      GuidelineModifications = []\<rparr>"

section \<open>Document loader and tool handlers\<close>

text \<open>
  A Go \<open>error\<close> is its message. What the handlers reach outside the server is an
  environment: \<open>url.Parse\<close> (the parsed URL with its scheme and its \<open>String()\<close>),
  \<open>os.Open\<close> followed by reading the file, \<open>filepath.Ext\<close>, \<open>http.Get\<close>, the JSON
  and YAML decoders of a guidance document, \<open>Catalog.LoadFile\<close> of the gemara library,
  \<open>strings.EqualFold\<close>, \<open>strings.ToLower\<close> and \<open>json.MarshalIndent\<close>. The environment
  does not change during a call.
\<close>

type_synonym error = string

record URL =
  Scheme :: string
  URL_String :: string

record Response =
  StatusCode :: nat
  Status :: string
  Body :: string

datatype payload =
    GuidancePayload GuidanceDocument
  | CatalogPayload Catalog
  | MappingPayload Mapping

record env =
  url_Parse :: "string \<Rightarrow> error + URL"
  os_Open :: "string \<Rightarrow> error + string"
  filepath_Ext :: "string \<Rightarrow> string"
  http_Get :: "string \<Rightarrow> error + Response"
  json_Decode :: "string \<Rightarrow> error + GuidanceDocument"
  yaml_Decode :: "string \<Rightarrow> error + GuidanceDocument"
  Catalog_LoadFile :: "string \<Rightarrow> error + Catalog"
  strings_EqualFold :: "string \<Rightarrow> string \<Rightarrow> bool"
  strings_ToLower :: "string \<Rightarrow> string"
  json_MarshalIndent :: "payload \<Rightarrow> error + string"

definition TrimPrefix :: "string \<Rightarrow> string \<Rightarrow> string" where
  "TrimPrefix s prefix =
     (if take (length prefix) s = prefix then drop (length prefix) s else s)"

definition loadLayer1FromFile :: "env \<Rightarrow> string \<Rightarrow> error + GuidanceDocument" where
  "loadLayer1FromFile e filePath =
     (case os_Open e filePath of
        Inl err \<Rightarrow> Inl (''error opening file: '' @ err)
      | Inr file \<Rightarrow>
          (let ext = filepath_Ext e filePath
           in if ext = ''.json''
              then (case json_Decode e file of
                      Inl err \<Rightarrow> Inl (''error decoding JSON: '' @ err)
                    | Inr doc \<Rightarrow> Inr doc)
              else (case yaml_Decode e file of
                      Inl err \<Rightarrow> Inl (''error decoding YAML: '' @ err)
                    | Inr doc \<Rightarrow> Inr doc)))"

definition loadLayer1FromURL :: "env \<Rightarrow> string \<Rightarrow> error + GuidanceDocument" where
  "loadLayer1FromURL e urlStr =
     (case http_Get e urlStr of
        Inl err \<Rightarrow> Inl (''failed to fetch URL: '' @ err)
      | Inr resp \<Rightarrow>
          if StatusCode resp \<noteq> 200
          then Inl (''failed to fetch URL; response status: '' @ Status resp)
          else (case yaml_Decode e (Body resp) of
                  Inr doc \<Rightarrow> Inr doc
                | Inl _ \<Rightarrow>
                    (case http_Get e urlStr of
                       Inl err \<Rightarrow> Inl (''failed to fetch URL for JSON: '' @ err)
                     | Inr resp2 \<Rightarrow>
                         (case json_Decode e (Body resp2) of
                            Inl err \<Rightarrow> Inl (''error decoding JSON: '' @ err)
                          | Inr doc \<Rightarrow> Inr doc))))"

definition loadLayer1Document :: "env \<Rightarrow> string \<Rightarrow> error + GuidanceDocument" where
  "loadLayer1Document e filePath =
     (case url_Parse e filePath of
        Inl err \<Rightarrow> loadLayer1FromFile e filePath
      | Inr parsedURL \<Rightarrow>
          if Scheme parsedURL = ''https'' \<or> Scheme parsedURL = ''http''
          then loadLayer1FromURL e (URL_String parsedURL)
          else if Scheme parsedURL = ''file''
          then loadLayer1FromFile e (TrimPrefix (URL_String parsedURL) ''file://'')
          else Inl (''unsupported scheme: '' @ Scheme parsedURL))"

text \<open>
  A tool result: the text of its one content item, the error flag and the structured
  content. A handler's value is the result together with the loader calls it made, in
  order. Its argument \<open>bound\<close> is the outcome of \<open>request.BindArguments\<close>: an error
  or the bound parameters.
\<close>

record CallToolResult =
  Text :: string
  IsError :: bool
  StructuredContent :: "payload option"

datatype call = Call_loadLayer1Document string | Call_LoadFile string

definition errorResult :: "string \<Rightarrow> CallToolResult" where
  "errorResult msg = \<lparr>Text = msg, IsError = True, StructuredContent = None\<rparr>"

definition marshalResult :: "env \<Rightarrow> payload \<Rightarrow> CallToolResult" where
  "marshalResult e p =
     (case json_MarshalIndent e p of
        Inl err \<Rightarrow> errorResult (''Error marshaling to JSON: '' @ err)
      | Inr resultJSON \<Rightarrow> \<lparr>Text = resultJSON, IsError = False, StructuredContent = Some p\<rparr>)"

definition handleImportGuidelinesByCriteria ::
    "env \<Rightarrow> error + GuidelinesParams \<Rightarrow> CallToolResult \<times> call list" where
  "handleImportGuidelinesByCriteria e bound =
     (case bound of
        Inl err \<Rightarrow> (errorResult (''Error parsing arguments: '' @ err), [])
      | Inr params \<Rightarrow>
          (case loadLayer1Document e (GuidelinesParams_FilePath params) of
             Inl err \<Rightarrow>
               (errorResult (''Error loading guidance document: '' @ err),
                [Call_loadLayer1Document (GuidelinesParams_FilePath params)])
           | Inr doc \<Rightarrow>
               (marshalResult e (GuidancePayload (filteredDoc (strings_EqualFold e) params doc)),
                [Call_loadLayer1Document (GuidelinesParams_FilePath params)])))"

definition handleImportControlsByLabel ::
    "env \<Rightarrow> error + ControlsParams \<Rightarrow> CallToolResult \<times> call list" where
  "handleImportControlsByLabel e bound =
     (case bound of
        Inl err \<Rightarrow> (errorResult (''Error parsing arguments: '' @ err), [])
      | Inr params \<Rightarrow>
          if length (Labels params) = 0
          then (errorResult ''At least one label must be provided'', [])
          else (case Catalog_LoadFile e (ControlsParams_FilePath params) of
                  Inl err \<Rightarrow>
                    (errorResult (''Error loading control catalog: '' @ err),
                     [Call_LoadFile (ControlsParams_FilePath params)])
                | Inr catalog \<Rightarrow>
                    (marshalResult e
                       (CatalogPayload (filteredCatalog (strings_ToLower e) (Labels params) catalog)),
                     [Call_LoadFile (ControlsParams_FilePath params)])))"

text \<open>
  \<^verbatim>\<open>if params.ModificationType == "" { params.ModificationType = "alter" }\<close>
\<close>

definition defaultModificationType :: "ModifiersParams \<Rightarrow> ModifiersParams" where
  "defaultModificationType params =
     (if ModifiersParams_ModificationType params = ''''
      then params\<lparr>ModifiersParams_ModificationType := ''alter''\<rparr>
      else params)"

definition handleCreateLayer3ControlModifiers ::
    "env \<Rightarrow> error + ModifiersParams \<Rightarrow> CallToolResult \<times> call list" where
  "handleCreateLayer3ControlModifiers e bound =
     (case bound of
        Inl err \<Rightarrow> (errorResult (''Error parsing arguments: '' @ err), [])
      | Inr params0 \<Rightarrow>
          (let params = defaultModificationType params0
           in case loadLayer1Document e (GuidelinesFile params) of
                Inl err \<Rightarrow>
                  (errorResult (''Error loading guidelines document: '' @ err),
                   [Call_loadLayer1Document (GuidelinesFile params)])
              | Inr guidelinesDoc \<Rightarrow>
                  (case Catalog_LoadFile e (ControlsFile params) of
                     Inl err \<Rightarrow>
                       (errorResult (''Error loading controls catalog: '' @ err),
                        [Call_loadLayer1Document (GuidelinesFile params),
                         Call_LoadFile (ControlsFile params)])
                   | Inr controlsCatalog \<Rightarrow>
                       (marshalResult e (MappingPayload (mapping params guidelinesDoc controlsCatalog)),
                        [Call_loadLayer1Document (GuidelinesFile params),
                         Call_LoadFile (ControlsFile params)]))))"

section \<open>Example artifacts\<close>

text \<open>
  On ASCII strings \<open>strings.ToLower\<close> maps the letters A to Z to a to z and
  \<open>strings.EqualFold\<close> compares two strings up to that mapping. These two instances
  are the arguments \<open>lower\<close> and \<open>ef\<close> of the examples below.
\<close>

definition asciiLower :: "char \<Rightarrow> char" where
  "asciiLower c =
     (case map_of (zip ''ABCDEFGHIJKLMNOPQRSTUVWXYZ'' ''abcdefghijklmnopqrstuvwxyz'') c of
        Some l \<Rightarrow> l
      | None \<Rightarrow> c)"

definition asciiToLower :: "string \<Rightarrow> string" where
  "asciiToLower s = map asciiLower s"

definition asciiEqualFold :: "string \<Rightarrow> string \<Rightarrow> bool" where
  "asciiEqualFold s t = (map asciiLower s = map asciiLower t)"

text \<open>
  A guidance document for cloud computing in the US, with the category
  \<open>basic-security\<close> of one guideline \<open>req-1\<close> and a category \<open>reserved\<close> that has no
  guideline yet; the same document without an applicability block.
\<close>

definition req1 :: Guideline where
  "req1 = \<lparr>Guideline_Id = ''req-1'', Guideline_Title = ''Encrypt data at rest'',
           Guideline_Objective = ''Confidentiality'', Guideline_Recommendations = []\<rparr>"

definition basicSecurity :: Category where
  "basicSecurity = \<lparr>Category_Id = ''basic-security'', Category_Title = ''Basic security'',
                    Category_Description = '''', Category_Guidelines = [req1]\<rparr>"

definition reserved :: Category where
  "reserved = \<lparr>Category_Id = ''reserved'', Category_Title = ''Reserved'',
               Category_Description = '''', Category_Guidelines = []\<rparr>"

definition cloudDoc :: GuidanceDocument where
  "cloudDoc =
     \<lparr>GuidanceDocument_Metadata =
        \<lparr>GuidanceMetadata_Id = ''cloud-guide'', GuidanceMetadata_Title = ''Cloud guidance'',
         GuidanceMetadata_Applicability =
           Some \<lparr>TechnologyDomains = [''cloud-computing''], IndustrySectors = [],
                 Jurisdictions = [''US'']\<rparr>\<rparr>,
      GuidanceDocument_Categories = [basicSecurity, reserved]\<rparr>"

definition bareDoc :: GuidanceDocument where
  "bareDoc =
     \<lparr>GuidanceDocument_Metadata =
        \<lparr>GuidanceMetadata_Id = ''bare-guide'', GuidanceMetadata_Title = ''Bare guidance'',
         GuidanceMetadata_Applicability = None\<rparr>,
      GuidanceDocument_Categories = [basicSecurity]\<rparr>"

definition criteria :: "string \<Rightarrow> string \<Rightarrow> string \<Rightarrow> GuidelinesParams" where
  "criteria technology sector jurisdiction =
     \<lparr>GuidelinesParams_FilePath = ''file:///data/guidance.yaml'', Technology = technology,
      Sector = sector, Jurisdiction = jurisdiction\<rparr>"

text \<open>
  A catalog with the applicability category \<open>tlp_green\<close> and one family of two
  controls. \<open>AC-1\<close> has a requirement labelled \<open>tlp_clear\<close> and two guideline
  mappings, each with an entry that refers to \<open>req-1\<close>; \<open>AC-2\<close> has no labelled
  requirement and one mapping to a guideline that the guidance document does not have.
\<close>

definition ac1 :: Control where
  "ac1 =
     \<lparr>Control_Id = ''AC-1'', Control_Title = ''Access policy'',
      Control_Objective = ''Limit access'',
      Control_AssessmentRequirements =
        [\<lparr>AssessmentRequirement_Id = ''AC-1.1'',
          AssessmentRequirement_Applicability = [''tlp_clear'']\<rparr>],
      Control_GuidelineMappings =
        [\<lparr>GuidelineMapping_ReferenceId = ''cloud-guide'',
          GuidelineMapping_Entries = [\<lparr>MappingEntry_ReferenceId = ''req-1''\<rparr>]\<rparr>,
         \<lparr>GuidelineMapping_ReferenceId = ''cloud-guide-2'',
          GuidelineMapping_Entries =
            [\<lparr>MappingEntry_ReferenceId = ''req-9''\<rparr>, \<lparr>MappingEntry_ReferenceId = ''req-1''\<rparr>]\<rparr>]\<rparr>"

definition ac2 :: Control where
  "ac2 =
     \<lparr>Control_Id = ''AC-2'', Control_Title = ''Account management'',
      Control_Objective = ''Manage accounts'',
      Control_AssessmentRequirements =
        [\<lparr>AssessmentRequirement_Id = ''AC-2.1'', AssessmentRequirement_Applicability = []\<rparr>],
      Control_GuidelineMappings =
        [\<lparr>GuidelineMapping_ReferenceId = ''cloud-guide'',
          GuidelineMapping_Entries = [\<lparr>MappingEntry_ReferenceId = ''req-7''\<rparr>]\<rparr>]\<rparr>"

definition accessCatalog :: Catalog where
  "accessCatalog =
     \<lparr>Catalog_Metadata =
        \<lparr>CatalogMetadata_Id = ''access-catalog'',
         CatalogMetadata_ApplicabilityCategories =
           [\<lparr>ApplicabilityCategory_Id = ''tlp_green'',
             ApplicabilityCategory_Title = ''TLP green''\<rparr>]\<rparr>,
      Catalog_ControlFamilies =
        [\<lparr>ControlFamily_Id = ''AC'', ControlFamily_Title = ''Access control'',
          ControlFamily_Controls = [ac1, ac2]\<rparr>]\<rparr>"

text \<open>
  An environment: every reference parses as a URL of the scheme found before its first
  colon (none when it has no colon), the file \<open>/data/guidance.yaml\<close> holds \<open>cloudDoc\<close> and
  \<open>Catalog.LoadFile\<close> gives \<open>accessCatalog\<close>; nothing is served over HTTP and the JSON
  encoder returns a fixed text.
\<close>

definition exampleEnv :: env where
  "exampleEnv =
     \<lparr>url_Parse = (\<lambda>s. Inr \<lparr>Scheme = (if CHR '':'' \<in> set s
                                          then takeWhile (\<lambda>c. c \<noteq> CHR '':'') s else ''''),
                                URL_String = s\<rparr>),
      os_Open = (\<lambda>p. if p = ''/data/guidance.yaml'' then Inr ''guidance''
                      else Inl ''no such file or directory''),
      filepath_Ext = (\<lambda>p. ''.yaml''),
      http_Get = (\<lambda>u. Inl ''connection refused''),
      json_Decode = (\<lambda>b. Inl ''invalid character''),
      yaml_Decode = (\<lambda>b. Inr cloudDoc),
      Catalog_LoadFile = (\<lambda>p. Inr accessCatalog),
      strings_EqualFold = asciiEqualFold,
      strings_ToLower = asciiToLower,
      json_MarshalIndent = (\<lambda>p. Inr ''{}'')\<rparr>"

definition modifiersParams :: "string \<Rightarrow> ModifiersParams" where
  "modifiersParams modificationType =
     \<lparr>GuidelinesFile = ''file:///data/guidance.yaml'',
      ControlsFile = ''file:///data/controls.yaml'',
      ModifiersParams_ModificationRationale = ''Harmonize with cloud guidance'',
      ModifiersParams_ModificationType = modificationType\<rparr>"

text \<open>
  A catalog whose only control, \<open>AC-2\<close>, refers to no guideline of \<open>cloudDoc\<close>, and
  the environment in which \<open>Catalog.LoadFile\<close> gives that catalog.
\<close>

definition accountCatalog :: Catalog where
  "accountCatalog =
     \<lparr>Catalog_Metadata =
        \<lparr>CatalogMetadata_Id = ''account-catalog'',
         CatalogMetadata_ApplicabilityCategories = []\<rparr>,
      Catalog_ControlFamilies =
        [\<lparr>ControlFamily_Id = ''AC'', ControlFamily_Title = ''Access control'',
          ControlFamily_Controls = [ac2]\<rparr>]\<rparr>"

definition accountEnv :: env where
  "accountEnv = exampleEnv\<lparr>Catalog_LoadFile := (\<lambda>p. Inr accountCatalog)\<rparr>"

definition controlsParams :: "string list \<Rightarrow> ControlsParams" where
  "controlsParams labels =
     \<lparr>ControlsParams_FilePath = ''file:///data/controls.yaml'', Labels = labels\<rparr>"

section \<open>Properties of the guidance filter\<close>

lemma found_iff: "found ef xs c = (\<exists>x \<in> set xs. ef x c)"
  by (induction xs) auto

lemma matches_Categories_update:
  "matches ef (doc\<lparr>GuidanceDocument_Categories := cs\<rparr>) params g = matches ef doc params g"
  by (simp add: matches_def)

lemma matches_no_criteria:
  "Technology params = [] \<Longrightarrow> Sector params = [] \<Longrightarrow> Jurisdiction params = [] \<Longrightarrow>
   matches ef doc params g"
  by (simp add: matches_def split: option.splits)

lemma matchingGuidelines_filter:
  "matchingGuidelines ef doc params gs acc = acc @ filter (matches ef doc params) gs"
  by (induction gs arbitrary: acc) auto

text \<open>
  The two loops as a filter and a map: the categories that keep a guideline, each with
  the guidelines it keeps, in the order of the document.
\<close>

lemma filteredCategories_eq:
  "filteredCategories ef doc params cs acc =
     acc @ map (\<lambda>c. c\<lparr>Category_Guidelines :=
                        filter (matches ef doc params) (Category_Guidelines c)\<rparr>)
             (filter (\<lambda>c. filter (matches ef doc params) (Category_Guidelines c) \<noteq> []) cs)"
  by (induction cs arbitrary: acc) (auto simp: matchingGuidelines_filter Let_def)

lemma filteredCategories_all:
  assumes "\<And>g. matches ef doc params g"
  shows "filteredCategories ef doc params cs [] = filter (\<lambda>c. Category_Guidelines c \<noteq> []) cs"
  using assms by (simp add: filteredCategories_eq)

lemma filteredCategories_none:
  assumes "\<And>g. \<not> matches ef doc params g"
  shows "filteredCategories ef doc params cs [] = []"
  using assms by (simp add: filteredCategories_eq)

text \<open>
  C3, as the claim states it, fails: with no criteria the filter still drops a category
  that has no guideline. The document \<open>cloudDoc\<close> has such a category, \<open>reserved\<close>, and
  is not returned unchanged.
\<close>

theorem guidance_filter_no_criteria_counterexample:
  "filteredDoc asciiEqualFold (criteria [] [] []) cloudDoc \<noteq> cloudDoc"
  by (simp add: filteredDoc_def cloudDoc_def basicSecurity_def reserved_def criteria_def
      matches_def)

text \<open>
  C3, amended: with no criteria supplied (technology, sector and jurisdiction all empty)
  the guidance filter returns the document with the same metadata and the same
  categories in the same order, each with its guidelines unchanged, except that the
  categories without any guideline are removed. A document in which every category
  has a guideline is returned unchanged.
\<close>

theorem guidance_filter_no_criteria:
  assumes "Technology params = []" and "Sector params = []" and "Jurisdiction params = []"
  shows "filteredDoc ef params doc =
           doc\<lparr>GuidanceDocument_Categories :=
                 filter (\<lambda>c. Category_Guidelines c \<noteq> []) (GuidanceDocument_Categories doc)\<rparr>
         \<and> ((\<forall>c \<in> set (GuidanceDocument_Categories doc). Category_Guidelines c \<noteq> []) \<longrightarrow>
              filteredDoc ef params doc = doc)"
proof -
  have all: "\<And>g. matches ef doc params g"
    using assms by (rule matches_no_criteria)
  have eq: "filteredDoc ef params doc =
           doc\<lparr>GuidanceDocument_Categories :=
                 filter (\<lambda>c. Category_Guidelines c \<noteq> []) (GuidanceDocument_Categories doc)\<rparr>"
    unfolding filteredDoc_def using all by (simp add: filteredCategories_all)
  have "filteredDoc ef params doc = doc"
    if "\<forall>c \<in> set (GuidanceDocument_Categories doc). Category_Guidelines c \<noteq> []"
  proof -
    from that have "filter (\<lambda>c. Category_Guidelines c \<noteq> []) (GuidanceDocument_Categories doc)
        = GuidanceDocument_Categories doc"
      by (simp add: filter_id_conv)
    with eq show ?thesis by simp
  qed
  with eq show ?thesis by blast
qed

theorem guidance_filter_no_criteria_witness:
  "Technology (criteria [] [] []) = [] \<and> Sector (criteria [] [] []) = [] \<and>
   Jurisdiction (criteria [] [] []) = [] \<and>
   GuidanceDocument_Categories bareDoc = [basicSecurity] \<and>
   Category_Guidelines basicSecurity = [req1] \<and>
   filteredDoc asciiEqualFold (criteria [] [] []) bareDoc = bareDoc \<and>
   filteredDoc asciiEqualFold (criteria [] [] []) cloudDoc =
     cloudDoc\<lparr>GuidanceDocument_Categories := [basicSecurity]\<rparr>"
proof -
  have h: "Technology (criteria [] [] []) = []" "Sector (criteria [] [] []) = []"
    "Jurisdiction (criteria [] [] []) = []"
    by (simp_all add: criteria_def)
  have full: "\<forall>c \<in> set (GuidanceDocument_Categories bareDoc). Category_Guidelines c \<noteq> []"
    by (simp add: bareDoc_def basicSecurity_def)
  from guidance_filter_no_criteria [OF h, of asciiEqualFold bareDoc] full
  have bare: "filteredDoc asciiEqualFold (criteria [] [] []) bareDoc = bareDoc"
    by blast
  from guidance_filter_no_criteria [OF h, of asciiEqualFold cloudDoc]
  have cloud: "filteredDoc asciiEqualFold (criteria [] [] []) cloudDoc =
     cloudDoc\<lparr>GuidanceDocument_Categories := [basicSecurity]\<rparr>"
    by (simp add: cloudDoc_def basicSecurity_def reserved_def)
  have cats: "GuidanceDocument_Categories bareDoc = [basicSecurity]"
    "Category_Guidelines basicSecurity = [req1]"
    by (simp_all add: bareDoc_def basicSecurity_def)
  from h cats bare cloud show ?thesis by simp
qed

text \<open>
  C4: a guideline matches iff every supplied (non-empty) criterion is equal under case
  folding to some entry of the corresponding list of the document's applicability
  block; without an applicability block it matches iff no criterion was supplied. So
  a document without the block and with a criterion supplied has no matching guideline,
  and with no criterion supplied every guideline matches.
\<close>

theorem guideline_matches_iff:
  "(matches ef doc params g \<longleftrightarrow>
      (case GuidanceMetadata_Applicability (GuidanceDocument_Metadata doc) of
         None \<Rightarrow> Technology params = [] \<and> Sector params = [] \<and> Jurisdiction params = []
       | Some a \<Rightarrow>
           (Technology params \<noteq> [] \<longrightarrow>
              (\<exists>t \<in> set (TechnologyDomains a). ef t (Technology params))) \<and>
           (Sector params \<noteq> [] \<longrightarrow>
              (\<exists>s \<in> set (IndustrySectors a). ef s (Sector params))) \<and>
           (Jurisdiction params \<noteq> [] \<longrightarrow>
              (\<exists>j \<in> set (Jurisdictions a). ef j (Jurisdiction params)))))
   \<and> (GuidanceMetadata_Applicability (GuidanceDocument_Metadata doc) = None \<and>
        (Technology params \<noteq> [] \<or> Sector params \<noteq> [] \<or> Jurisdiction params \<noteq> []) \<longrightarrow>
        \<not> matches ef doc params g)
   \<and> (Technology params = [] \<and> Sector params = [] \<and> Jurisdiction params = [] \<longrightarrow>
        matches ef doc params g)"
proof -
  have iff: "matches ef doc params g \<longleftrightarrow>
      (case GuidanceMetadata_Applicability (GuidanceDocument_Metadata doc) of
         None \<Rightarrow> Technology params = [] \<and> Sector params = [] \<and> Jurisdiction params = []
       | Some a \<Rightarrow>
           (Technology params \<noteq> [] \<longrightarrow>
              (\<exists>t \<in> set (TechnologyDomains a). ef t (Technology params))) \<and>
           (Sector params \<noteq> [] \<longrightarrow>
              (\<exists>s \<in> set (IndustrySectors a). ef s (Sector params))) \<and>
           (Jurisdiction params \<noteq> [] \<longrightarrow>
              (\<exists>j \<in> set (Jurisdictions a). ef j (Jurisdiction params))))"
  proof (cases "GuidanceMetadata_Applicability (GuidanceDocument_Metadata doc)")
    case None
    then show ?thesis by (simp add: matches_def)
  next
    case (Some a)
    then show ?thesis by (auto simp: matches_def found_iff Let_def)
  qed
  have closed: "GuidanceMetadata_Applicability (GuidanceDocument_Metadata doc) = None \<and>
        (Technology params \<noteq> [] \<or> Sector params \<noteq> [] \<or> Jurisdiction params \<noteq> []) \<longrightarrow>
        \<not> matches ef doc params g"
    by (auto simp: matches_def)
  have none: "Technology params = [] \<and> Sector params = [] \<and> Jurisdiction params = [] \<longrightarrow>
        matches ef doc params g"
    by (simp add: matches_no_criteria)
  from iff closed none show ?thesis by simp
qed

theorem guideline_matches_iff_witness:
  "matches asciiEqualFold cloudDoc (criteria ''Cloud-Computing'' [] ''us'') req1 \<and>
   \<not> matches asciiEqualFold cloudDoc (criteria ''cloud'' [] []) req1 \<and>
   \<not> matches asciiEqualFold bareDoc (criteria [] [] ''US'') req1 \<and>
   matches asciiEqualFold bareDoc (criteria [] [] []) req1"
proof -
  have a: "matches asciiEqualFold cloudDoc (criteria ''Cloud-Computing'' [] ''us'') req1"
    using guideline_matches_iff
      [of asciiEqualFold cloudDoc "criteria ''Cloud-Computing'' [] ''us''" req1]
    by (simp add: cloudDoc_def criteria_def asciiEqualFold_def asciiLower_def)
  have b: "\<not> matches asciiEqualFold cloudDoc (criteria ''cloud'' [] []) req1"
    using guideline_matches_iff [of asciiEqualFold cloudDoc "criteria ''cloud'' [] []" req1]
    by (simp add: cloudDoc_def criteria_def asciiEqualFold_def asciiLower_def)
  have c: "\<not> matches asciiEqualFold bareDoc (criteria [] [] ''US'') req1"
    using guideline_matches_iff [of asciiEqualFold bareDoc "criteria [] [] ''US''" req1]
    by (simp add: bareDoc_def criteria_def)
  have d: "matches asciiEqualFold bareDoc (criteria [] [] []) req1"
    using guideline_matches_iff [of asciiEqualFold bareDoc "criteria [] [] []" req1]
    by (simp add: bareDoc_def criteria_def)
  from a b c d show ?thesis by simp
qed

text \<open>
  C9: whether a guideline matches does not depend on the guideline, only on the
  document's metadata and the criteria. So the filter is all or nothing: its output is
  the document with the categories that have no guideline removed, or it has no
  category at all.
\<close>

theorem guidance_filter_all_or_nothing:
  "(\<forall>g g'. matches ef doc params g = matches ef doc params g') \<and>
   (filteredDoc ef params doc =
      doc\<lparr>GuidanceDocument_Categories :=
            filter (\<lambda>c. Category_Guidelines c \<noteq> []) (GuidanceDocument_Categories doc)\<rparr>
    \<or> GuidanceDocument_Categories (filteredDoc ef params doc) = [])"
proof -
  have indep: "\<forall>g g'. matches ef doc params g = matches ef doc params g'"
    by (simp add: matches_def)
  show ?thesis
  proof (cases "matches ef doc params undefined")
    case True
    with indep have "\<And>g. matches ef doc params g" by blast
    then show ?thesis using indep
      by (simp add: filteredDoc_def filteredCategories_all)
  next
    case False
    with indep have "\<And>g. \<not> matches ef doc params g" by blast
    then show ?thesis using indep
      by (simp add: filteredDoc_def filteredCategories_none)
  qed
qed

theorem guidance_filter_all_or_nothing_witness:
  "filteredDoc asciiEqualFold (criteria ''cloud-computing'' [] []) cloudDoc =
     cloudDoc\<lparr>GuidanceDocument_Categories := [basicSecurity]\<rparr> \<and>
   GuidanceDocument_Categories (filteredDoc asciiEqualFold (criteria ''iot'' [] []) cloudDoc) = []"
proof -
  have yes: "matches asciiEqualFold cloudDoc (criteria ''cloud-computing'' [] []) req1"
    by (simp add: matches_def cloudDoc_def criteria_def asciiEqualFold_def)
  have no: "\<not> matches asciiEqualFold cloudDoc (criteria ''iot'' [] []) req1"
    by (simp add: matches_def cloudDoc_def criteria_def asciiEqualFold_def asciiLower_def)
  have kept: "GuidanceDocument_Categories
      (filteredDoc asciiEqualFold (criteria ''cloud-computing'' [] []) cloudDoc) \<noteq> []"
    using yes
    by (simp add: filteredDoc_def filteredCategories_eq cloudDoc_def basicSecurity_def
        reserved_def)
  have dropped: "filteredDoc asciiEqualFold (criteria ''iot'' [] []) cloudDoc \<noteq>
      cloudDoc\<lparr>GuidanceDocument_Categories :=
        filter (\<lambda>c. Category_Guidelines c \<noteq> []) (GuidanceDocument_Categories cloudDoc)\<rparr>"
    using no
    by (simp add: filteredDoc_def filteredCategories_eq cloudDoc_def basicSecurity_def
        reserved_def)
  have a: "filteredDoc asciiEqualFold (criteria ''cloud-computing'' [] []) cloudDoc =
     cloudDoc\<lparr>GuidanceDocument_Categories := [basicSecurity]\<rparr>"
    using guidance_filter_all_or_nothing
      [of asciiEqualFold cloudDoc "criteria ''cloud-computing'' [] []"] kept
    by (simp add: cloudDoc_def basicSecurity_def reserved_def)
  have b: "GuidanceDocument_Categories
      (filteredDoc asciiEqualFold (criteria ''iot'' [] []) cloudDoc) = []"
    using guidance_filter_all_or_nothing [of asciiEqualFold cloudDoc "criteria ''iot'' [] []"]
      dropped
    by blast
  from a b show ?thesis by simp
qed

section \<open>Properties of the control filter\<close>

lemma index_labelMap:
  "index (labelMap lower labels m) k = (k \<in> lower ` set labels \<or> index m k)"
  by (induction labels arbitrary: m) (auto simp: index_def)

lemma index_labelMap_empty:
  "index (labelMap lower labels Map.empty) k = (k \<in> lower ` set labels)"
  unfolding index_labelMap by (simp add: index_def)

lemma applicabilityLoop_iff:
  "applicabilityLoop lower lm apps = (\<exists>app \<in> set apps. index lm (lower app))"
  by (induction apps) auto

lemma requirementsLoop_iff:
  "requirementsLoop lower lm reqs =
     (\<exists>req \<in> set reqs. \<exists>app \<in> set (AssessmentRequirement_Applicability req).
        index lm (lower app))"
  by (induction reqs) (auto simp: applicabilityLoop_iff)

lemma categoriesLoop_iff:
  "categoriesLoop lower lm cats =
     (\<exists>cat \<in> set cats. index lm (lower (ApplicabilityCategory_Id cat)))"
  by (induction cats) auto

lemma controlMatches_iff:
  "controlMatches lower lm catalog control =
     ((\<exists>req \<in> set (Control_AssessmentRequirements control).
         \<exists>app \<in> set (AssessmentRequirement_Applicability req). index lm (lower app)) \<or>
      (\<exists>cat \<in> set (CatalogMetadata_ApplicabilityCategories (Catalog_Metadata catalog)).
         index lm (lower (ApplicabilityCategory_Id cat))))"
  unfolding controlMatches_def Let_def requirementsLoop_iff categoriesLoop_iff
  by auto

lemma controlMatches_Families_update:
  "controlMatches lower lm (catalog\<lparr>Catalog_ControlFamilies := fs\<rparr>) control =
   controlMatches lower lm catalog control"
  by (simp add: controlMatches_def)

lemma matchingControls_filter:
  "matchingControls lower lm catalog cs acc = acc @ filter (controlMatches lower lm catalog) cs"
  by (induction cs arbitrary: acc) auto

lemma filteredFamilies_eq:
  "filteredFamilies lower lm catalog fs acc =
     acc @ map (\<lambda>f. f\<lparr>ControlFamily_Controls :=
                        filter (controlMatches lower lm catalog) (ControlFamily_Controls f)\<rparr>)
             (filter (\<lambda>f. filter (controlMatches lower lm catalog) (ControlFamily_Controls f)
                            \<noteq> []) fs)"
  by (induction fs arbitrary: acc) (auto simp: matchingControls_filter Let_def)

text \<open>
  C5: the lookup set holds the lower-cased labels, and an applicability entry or a
  category id is looked up lower-cased. A control matches iff one of its assessment
  requirements has an applicability entry in the lookup set, or one of the catalog's
  applicability categories has its id in the lookup set. The second alternative does
  not mention the control: when it holds, every control matches.
\<close>

theorem control_matches_iff:
  "(controlMatches lower (labelMap lower labels Map.empty) catalog control \<longleftrightarrow>
      (\<exists>req \<in> set (Control_AssessmentRequirements control).
         \<exists>app \<in> set (AssessmentRequirement_Applicability req).
           lower app \<in> lower ` set labels) \<or>
      (\<exists>cat \<in> set (CatalogMetadata_ApplicabilityCategories (Catalog_Metadata catalog)).
         lower (ApplicabilityCategory_Id cat) \<in> lower ` set labels))
   \<and> ((\<exists>cat \<in> set (CatalogMetadata_ApplicabilityCategories (Catalog_Metadata catalog)).
         lower (ApplicabilityCategory_Id cat) \<in> lower ` set labels) \<longrightarrow>
       (\<forall>c. controlMatches lower (labelMap lower labels Map.empty) catalog c))"
  by (simp add: controlMatches_iff index_labelMap_empty)

theorem control_matches_iff_witness:
  "controlMatches asciiToLower (labelMap asciiToLower [''TLP_CLEAR''] Map.empty) accessCatalog ac1 \<and>
   \<not> controlMatches asciiToLower (labelMap asciiToLower [''TLP_CLEAR''] Map.empty) accessCatalog ac2 \<and>
   controlMatches asciiToLower (labelMap asciiToLower [''TLP_Green''] Map.empty) accessCatalog ac2"
proof -
  have a: "controlMatches asciiToLower (labelMap asciiToLower [''TLP_CLEAR''] Map.empty)
      accessCatalog ac1"
    using control_matches_iff [of asciiToLower "[''TLP_CLEAR'']" accessCatalog ac1]
    by (simp add: ac1_def asciiToLower_def asciiLower_def)
  have b: "\<not> controlMatches asciiToLower (labelMap asciiToLower [''TLP_CLEAR''] Map.empty)
      accessCatalog ac2"
    using control_matches_iff [of asciiToLower "[''TLP_CLEAR'']" accessCatalog ac2]
    by (simp add: ac2_def accessCatalog_def asciiToLower_def asciiLower_def)
  have c: "controlMatches asciiToLower (labelMap asciiToLower [''TLP_Green''] Map.empty)
      accessCatalog ac2"
    using control_matches_iff [of asciiToLower "[''TLP_Green'']" accessCatalog ac2]
    by (simp add: accessCatalog_def asciiToLower_def asciiLower_def)
  from a b c show ?thesis by simp
qed

section \<open>Idempotence of the two filters\<close>

lemma filteredCategories_cong:
  "(\<And>g. matches ef doc' params g = matches ef doc params g) \<Longrightarrow>
   filteredCategories ef doc' params cs acc = filteredCategories ef doc params cs acc"
proof -
  assume "\<And>g. matches ef doc' params g = matches ef doc params g"
  then have "matches ef doc' params = matches ef doc params" by (rule ext)
  then show ?thesis by (simp add: filteredCategories_eq)
qed

lemma filteredFamilies_cong:
  "(\<And>c. controlMatches lower lm catalog' c = controlMatches lower lm catalog c) \<Longrightarrow>
   filteredFamilies lower lm catalog' fs acc = filteredFamilies lower lm catalog fs acc"
proof -
  assume "\<And>c. controlMatches lower lm catalog' c = controlMatches lower lm catalog c"
  then have "controlMatches lower lm catalog' = controlMatches lower lm catalog" by (rule ext)
  then show ?thesis by (simp add: filteredFamilies_eq)
qed

lemma filteredCategories_idem:
  "filteredCategories ef doc params (filteredCategories ef doc params cs []) [] =
   filteredCategories ef doc params cs []"
  by (induction cs) (auto simp: filteredCategories_eq)

lemma filteredFamilies_idem:
  "filteredFamilies lower lm catalog (filteredFamilies lower lm catalog fs []) [] =
   filteredFamilies lower lm catalog fs []"
  by (induction fs) (auto simp: filteredFamilies_eq)

text \<open>
  C6: both filters are idempotent. Filtering a guidance document by some criteria and
  filtering the result by the same criteria gives the first result again; likewise for
  a catalog and a list of labels.
\<close>

theorem filters_idempotent:
  "filteredDoc ef params (filteredDoc ef params doc) = filteredDoc ef params doc \<and>
   filteredCatalog lower labels (filteredCatalog lower labels catalog) =
     filteredCatalog lower labels catalog"
proof -
  let ?doc' = "filteredDoc ef params doc"
  have "filteredCategories ef ?doc' params (GuidanceDocument_Categories ?doc') [] =
        filteredCategories ef doc params (GuidanceDocument_Categories ?doc') []"
    by (rule filteredCategories_cong) (simp add: filteredDoc_def matches_Categories_update)
  then have g: "filteredDoc ef params ?doc' = ?doc'"
    by (simp add: filteredDoc_def filteredCategories_idem)
  let ?lm = "labelMap lower labels Map.empty"
  let ?cat' = "filteredCatalog lower labels catalog"
  have "filteredFamilies lower ?lm ?cat' (Catalog_ControlFamilies ?cat') [] =
        filteredFamilies lower ?lm catalog (Catalog_ControlFamilies ?cat') []"
    by (rule filteredFamilies_cong)
      (simp add: filteredCatalog_def controlMatches_Families_update)
  then have c: "filteredCatalog lower labels ?cat' = ?cat'"
    by (simp add: filteredCatalog_def filteredFamilies_idem)
  from g c show ?thesis by simp
qed

theorem filters_idempotent_witness:
  "filteredDoc asciiEqualFold (criteria ''cloud-computing'' [] [])
     (filteredDoc asciiEqualFold (criteria ''cloud-computing'' [] []) cloudDoc) =
   filteredDoc asciiEqualFold (criteria ''cloud-computing'' [] []) cloudDoc \<and>
   filteredCatalog asciiToLower [''TLP_CLEAR'']
     (filteredCatalog asciiToLower [''TLP_CLEAR''] accessCatalog) =
   filteredCatalog asciiToLower [''TLP_CLEAR''] accessCatalog"
  using filters_idempotent
    [of asciiEqualFold "criteria ''cloud-computing'' [] []" cloudDoc asciiToLower
      "[''TLP_CLEAR'']" accessCatalog]
  by simp

section \<open>Properties of the modifier synthesizer\<close>

lemma dom_guidelineMap_category:
  "dom (guidelineMap_category gs m) = dom m \<union> Guideline_Id ` set gs"
  by (induction gs arbitrary: m) auto

lemma dom_guidelineMap:
  "dom (guidelineMap cs m) =
     dom m \<union> (\<Union>c \<in> set cs. Guideline_Id ` set (Category_Guidelines c))"
  by (induction cs arbitrary: m) (auto simp: dom_guidelineMap_category)

text \<open>
  What the loops emit. The loop over the entries of one mapping adds one modifier when
  some entry resolves; the loop over the mappings of a control therefore adds one
  modifier for each mapping that has a resolving entry.
\<close>

lemma entriesLoop_eq:
  "entriesLoop gm params control es acc =
     acc @ (if \<exists>e \<in> set es. gm (MappingEntry_ReferenceId e) \<noteq> None
            then [modifier params control] else [])"
  by (induction es) auto

lemma mappingsLoop_eq:
  "mappingsLoop gm params control ms acc =
     acc @ map (\<lambda>m. modifier params control)
             (filter (\<lambda>m. \<exists>e \<in> set (GuidelineMapping_Entries m).
                              gm (MappingEntry_ReferenceId e) \<noteq> None) ms)"
  by (induction ms arbitrary: acc) (auto simp: entriesLoop_eq)

lemma controlsLoop_eq:
  "controlsLoop gm params cs acc =
     acc @ concat (map (\<lambda>c. mappingsLoop gm params c (Control_GuidelineMappings c) []) cs)"
proof (induction cs arbitrary: acc)
  case Nil
  then show ?case by simp
next
  case (Cons c cs)
  have "mappingsLoop gm params c (Control_GuidelineMappings c) acc =
        acc @ mappingsLoop gm params c (Control_GuidelineMappings c) []"
    by (simp add: mappingsLoop_eq)
  with Cons show ?case by simp
qed

lemma familiesLoop_eq:
  "familiesLoop gm params fs acc =
     acc @ concat (map (\<lambda>f. controlsLoop gm params (ControlFamily_Controls f) []) fs)"
proof (induction fs arbitrary: acc)
  case Nil
  then show ?case by simp
next
  case (Cons f fs)
  have "controlsLoop gm params (ControlFamily_Controls f) acc =
        acc @ controlsLoop gm params (ControlFamily_Controls f) []"
    by (simp add: controlsLoop_eq)
  with Cons show ?case by simp
qed

lemma controlModifiers_set:
  "set (controlModifiers params guidelinesDoc controlsCatalog) \<subseteq>
     modifier params ` (\<Union>f \<in> set (Catalog_ControlFamilies controlsCatalog).
                          set (ControlFamily_Controls f))"
  by (auto simp: controlModifiers_def familiesLoop_eq controlsLoop_eq mappingsLoop_eq)

lemma controlModifiers_unresolved:
  assumes "\<forall>f \<in> set (Catalog_ControlFamilies controlsCatalog).
           \<forall>c \<in> set (ControlFamily_Controls f).
           \<forall>m \<in> set (Control_GuidelineMappings c).
           \<forall>e \<in> set (GuidelineMapping_Entries m).
             MappingEntry_ReferenceId e \<notin>
               (\<Union>c \<in> set (GuidanceDocument_Categories guidelinesDoc).
                  Guideline_Id ` set (Category_Guidelines c))"
  shows "controlModifiers params guidelinesDoc controlsCatalog = []"
proof -
  let ?gm = "guidelineMap (GuidanceDocument_Categories guidelinesDoc) Map.empty"
  have key: "?gm k \<noteq> None \<longleftrightarrow>
      k \<in> (\<Union>c \<in> set (GuidanceDocument_Categories guidelinesDoc).
                  Guideline_Id ` set (Category_Guidelines c))" for k
  proof -
    have "?gm k \<noteq> None \<longleftrightarrow> k \<in> dom ?gm"
      by (simp add: domIff)
    then show ?thesis
      unfolding dom_guidelineMap by simp
  qed
  have "mappingsLoop ?gm params c (Control_GuidelineMappings c) [] = []"
    if "f \<in> set (Catalog_ControlFamilies controlsCatalog)" "c \<in> set (ControlFamily_Controls f)"
    for f c
    using assms that unfolding mappingsLoop_eq key by (auto simp: filter_empty_conv)
  then have "controlsLoop ?gm params (ControlFamily_Controls f) [] = []"
    if "f \<in> set (Catalog_ControlFamilies controlsCatalog)" for f
    using that by (simp add: controlsLoop_eq)
  then show ?thesis
    by (simp add: controlModifiers_def familiesLoop_eq)
qed

lemma handleCreateLayer3ControlModifiers_loaded:
  assumes "loadLayer1Document e (GuidelinesFile params) = Inr guidelinesDoc"
    and "Catalog_LoadFile e (ControlsFile params) = Inr controlsCatalog"
  shows "fst (handleCreateLayer3ControlModifiers e (Inr params)) =
           marshalResult e (MappingPayload
             (mapping (defaultModificationType params) guidelinesDoc controlsCatalog))"
  using assms
  by (simp add: handleCreateLayer3ControlModifiers_def Let_def defaultModificationType_def)

lemma load_cloudDoc:
  "loadLayer1Document exampleEnv ''file:///data/guidance.yaml'' = Inr cloudDoc"
  by (simp add: loadLayer1Document_def loadLayer1FromFile_def TrimPrefix_def exampleEnv_def)

lemma load_cloudDoc_accountEnv:
  "loadLayer1Document accountEnv ''file:///data/guidance.yaml'' = Inr cloudDoc"
  by (simp add: loadLayer1Document_def loadLayer1FromFile_def TrimPrefix_def exampleEnv_def
      accountEnv_def)

text \<open>
  C1 fails on the code. The control \<open>AC-1\<close> of \<open>accessCatalog\<close> has two guideline
  mappings that both resolve to the guideline \<open>req-1\<close> of \<open>cloudDoc\<close>, and the handler
  emits two modifiers with the target \<open>AC-1\<close>: the \<open>break\<close> leaves the loop over the
  entries of one mapping only, so the second mapping is scanned as well.
\<close>

theorem two_modifiers_for_one_control:
  "fst (handleCreateLayer3ControlModifiers exampleEnv (Inr (modifiersParams ''alter''))) =
     \<lparr>Text = ''{}'', IsError = False,
      StructuredContent = Some (MappingPayload
        \<lparr>Mapping_ReferenceId = ''access-catalog'',
         ControlModifications =
           [\<lparr>TargetId = ''AC-1'', ModType = ''alter'',
             ModificationRationale = ''Harmonize with cloud guidance'',
             ControlModifier_Title = ''Access policy'',
             ControlModifier_Objective = ''Limit access''\<rparr>,
            \<lparr>TargetId = ''AC-1'', ModType = ''alter'',
             ModificationRationale = ''Harmonize with cloud guidance'',
             ControlModifier_Title = ''Access policy'',
             ControlModifier_Objective = ''Limit access''\<rparr>],
         InScope = Scope [], OutOfScope = Scope [],
         AssessmentRequirementModifications = [], GuidelineModifications = []\<rparr>)\<rparr>"
proof -
  have l1: "loadLayer1Document exampleEnv (GuidelinesFile (modifiersParams ''alter'')) =
      Inr cloudDoc"
    by (simp add: modifiersParams_def load_cloudDoc)
  have l2: "Catalog_LoadFile exampleEnv (ControlsFile (modifiersParams ''alter'')) =
      Inr accessCatalog"
    by (simp add: exampleEnv_def)
  have m: "controlModifiers (defaultModificationType (modifiersParams ''alter'')) cloudDoc
      accessCatalog =
    [modifier (modifiersParams ''alter'') ac1, modifier (modifiersParams ''alter'') ac1]"
    by (simp add: controlModifiers_def defaultModificationType_def modifiersParams_def
        cloudDoc_def accessCatalog_def ac1_def ac2_def basicSecurity_def reserved_def req1_def)
  show ?thesis
    unfolding handleCreateLayer3ControlModifiers_loaded [OF l1 l2] mapping_def m
    by (simp add: marshalResult_def modifier_def exampleEnv_def modifiersParams_def ac1_def
        accessCatalog_def)
qed

text \<open>
  C7: once both documents are loaded (and the JSON encoder has returned its text) the
  handler answers without the error flag, with a Mapping whose reference id is the
  catalog's metadata id, whose two scopes are empty and whose lists of
  assessment-requirement and guideline modifications are empty. When no entry of any
  guideline mapping in the catalog refers to a guideline id of the guidance document,
  the list of control modifications is empty too.
\<close>

theorem synthesizer_returns_mapping:
  assumes "loadLayer1Document e (GuidelinesFile params) = Inr guidelinesDoc"
    and "Catalog_LoadFile e (ControlsFile params) = Inr controlsCatalog"
    and "json_MarshalIndent e (MappingPayload
           (mapping (defaultModificationType params) guidelinesDoc controlsCatalog)) =
         Inr resultJSON"
  shows "\<exists>m. fst (handleCreateLayer3ControlModifiers e (Inr params)) =
               \<lparr>Text = resultJSON, IsError = False,
                StructuredContent = Some (MappingPayload m)\<rparr> \<and>
             Mapping_ReferenceId m = CatalogMetadata_Id (Catalog_Metadata controlsCatalog) \<and>
             InScope m = Scope [] \<and> OutOfScope m = Scope [] \<and>
             AssessmentRequirementModifications m = [] \<and> GuidelineModifications m = [] \<and>
             ((\<forall>f \<in> set (Catalog_ControlFamilies controlsCatalog).
               \<forall>c \<in> set (ControlFamily_Controls f).
               \<forall>gm \<in> set (Control_GuidelineMappings c).
               \<forall>en \<in> set (GuidelineMapping_Entries gm).
                 MappingEntry_ReferenceId en \<notin>
                   (\<Union>c \<in> set (GuidanceDocument_Categories guidelinesDoc).
                      Guideline_Id ` set (Category_Guidelines c))) \<longrightarrow>
              ControlModifications m = [])"
proof -
  let ?m = "mapping (defaultModificationType params) guidelinesDoc controlsCatalog"
  have r: "fst (handleCreateLayer3ControlModifiers e (Inr params)) =
      \<lparr>Text = resultJSON, IsError = False, StructuredContent = Some (MappingPayload ?m)\<rparr>"
    using assms by (simp add: handleCreateLayer3ControlModifiers_loaded marshalResult_def)
  have fields: "Mapping_ReferenceId ?m = CatalogMetadata_Id (Catalog_Metadata controlsCatalog)"
    "InScope ?m = Scope []" "OutOfScope ?m = Scope []"
    "AssessmentRequirementModifications ?m = []" "GuidelineModifications ?m = []"
    by (simp_all add: mapping_def)
  have empty: "ControlModifications ?m = []"
    if "\<forall>f \<in> set (Catalog_ControlFamilies controlsCatalog).
               \<forall>c \<in> set (ControlFamily_Controls f).
               \<forall>gm \<in> set (Control_GuidelineMappings c).
               \<forall>en \<in> set (GuidelineMapping_Entries gm).
                 MappingEntry_ReferenceId en \<notin>
                   (\<Union>c \<in> set (GuidanceDocument_Categories guidelinesDoc).
                      Guideline_Id ` set (Category_Guidelines c))"
    using controlModifiers_unresolved [OF that] by (simp add: mapping_def)
  from r fields empty show ?thesis by blast
qed

theorem synthesizer_returns_mapping_witness:
  "loadLayer1Document accountEnv (GuidelinesFile (modifiersParams [])) = Inr cloudDoc \<and>
   Catalog_LoadFile accountEnv (ControlsFile (modifiersParams [])) = Inr accountCatalog \<and>
   json_MarshalIndent accountEnv (MappingPayload
     (mapping (defaultModificationType (modifiersParams [])) cloudDoc accountCatalog)) =
     Inr ''{}'' \<and>
   fst (handleCreateLayer3ControlModifiers accountEnv (Inr (modifiersParams []))) =
     \<lparr>Text = ''{}'', IsError = False,
      StructuredContent = Some (MappingPayload
        \<lparr>Mapping_ReferenceId = ''account-catalog'', ControlModifications = [],
         InScope = Scope [], OutOfScope = Scope [],
         AssessmentRequirementModifications = [], GuidelineModifications = []\<rparr>)\<rparr>"
proof -
  have l1: "loadLayer1Document accountEnv (GuidelinesFile (modifiersParams [])) = Inr cloudDoc"
    by (simp add: modifiersParams_def load_cloudDoc_accountEnv)
  have l2: "Catalog_LoadFile accountEnv (ControlsFile (modifiersParams [])) = Inr accountCatalog"
    by (simp add: accountEnv_def)
  have l3: "json_MarshalIndent accountEnv (MappingPayload
     (mapping (defaultModificationType (modifiersParams [])) cloudDoc accountCatalog)) =
     Inr ''{}''"
    by (simp add: accountEnv_def exampleEnv_def)
  have unresolved: "\<forall>f \<in> set (Catalog_ControlFamilies accountCatalog).
               \<forall>c \<in> set (ControlFamily_Controls f).
               \<forall>gm \<in> set (Control_GuidelineMappings c).
               \<forall>en \<in> set (GuidelineMapping_Entries gm).
                 MappingEntry_ReferenceId en \<notin>
                   (\<Union>c \<in> set (GuidanceDocument_Categories cloudDoc).
                      Guideline_Id ` set (Category_Guidelines c))"
    by (simp add: accountCatalog_def ac2_def cloudDoc_def basicSecurity_def reserved_def
        req1_def)
  from synthesizer_returns_mapping [OF l1 l2 l3] unresolved
  obtain m where m: "fst (handleCreateLayer3ControlModifiers accountEnv
        (Inr (modifiersParams []))) =
      \<lparr>Text = ''{}'', IsError = False, StructuredContent = Some (MappingPayload m)\<rparr>"
    "Mapping_ReferenceId m = CatalogMetadata_Id (Catalog_Metadata accountCatalog)"
    "InScope m = Scope []" "OutOfScope m = Scope []"
    "AssessmentRequirementModifications m = []" "GuidelineModifications m = []"
    "ControlModifications m = []"
    by blast
  have "m = \<lparr>Mapping_ReferenceId = ''account-catalog'', ControlModifications = [],
         InScope = Scope [], OutOfScope = Scope [],
         AssessmentRequirementModifications = [], GuidelineModifications = []\<rparr>"
    using m(2-7) by (simp add: accountCatalog_def)
  with m(1) l1 l2 l3 show ?thesis by simp
qed

text \<open>
  C10: the modification type is not checked against alter, add and remove. Whatever
  string is supplied, once both documents are loaded (and the JSON encoder has returned
  its text) the handler answers without the error flag, and every modifier of the
  Mapping carries that string as its type, or \<open>alter\<close> when the string is empty.
\<close>

theorem modification_type_not_validated:
  assumes "loadLayer1Document e (GuidelinesFile params) = Inr guidelinesDoc"
    and "Catalog_LoadFile e (ControlsFile params) = Inr controlsCatalog"
    and "json_MarshalIndent e (MappingPayload
           (mapping (defaultModificationType params) guidelinesDoc controlsCatalog)) =
         Inr resultJSON"
  shows "\<exists>m. fst (handleCreateLayer3ControlModifiers e (Inr params)) =
               \<lparr>Text = resultJSON, IsError = False,
                StructuredContent = Some (MappingPayload m)\<rparr> \<and>
             (\<forall>cm \<in> set (ControlModifications m).
                ModType cm = (if ModifiersParams_ModificationType params = [] then ''alter''
                              else ModifiersParams_ModificationType params))"
proof -
  let ?m = "mapping (defaultModificationType params) guidelinesDoc controlsCatalog"
  have r: "fst (handleCreateLayer3ControlModifiers e (Inr params)) =
      \<lparr>Text = resultJSON, IsError = False, StructuredContent = Some (MappingPayload ?m)\<rparr>"
    using assms by (simp add: handleCreateLayer3ControlModifiers_loaded marshalResult_def)
  have "ModType cm = ModifiersParams_ModificationType (defaultModificationType params)"
    if "cm \<in> set (ControlModifications ?m)" for cm
    using that
      controlModifiers_set [of "defaultModificationType params" guidelinesDoc controlsCatalog]
    by (auto simp: mapping_def modifier_def)
  then have "\<forall>cm \<in> set (ControlModifications ?m).
                ModType cm = (if ModifiersParams_ModificationType params = [] then ''alter''
                              else ModifiersParams_ModificationType params)"
    by (simp add: defaultModificationType_def)
  with r show ?thesis by blast
qed

theorem modification_type_not_validated_witness:
  "loadLayer1Document exampleEnv (GuidelinesFile (modifiersParams ''bogus'')) = Inr cloudDoc \<and>
   Catalog_LoadFile exampleEnv (ControlsFile (modifiersParams ''bogus'')) = Inr accessCatalog \<and>
   json_MarshalIndent exampleEnv (MappingPayload
     (mapping (defaultModificationType (modifiersParams ''bogus'')) cloudDoc accessCatalog)) =
     Inr ''{}'' \<and>
   IsError (fst (handleCreateLayer3ControlModifiers exampleEnv
     (Inr (modifiersParams ''bogus'')))) = False \<and>
   (case StructuredContent (fst (handleCreateLayer3ControlModifiers exampleEnv
           (Inr (modifiersParams ''bogus'')))) of
      Some (MappingPayload m) \<Rightarrow> set (map ModType (ControlModifications m)) \<subseteq> {''bogus''}
    | _ \<Rightarrow> False)"
proof -
  have l1: "loadLayer1Document exampleEnv (GuidelinesFile (modifiersParams ''bogus'')) =
      Inr cloudDoc"
    by (simp add: modifiersParams_def load_cloudDoc)
  have l2: "Catalog_LoadFile exampleEnv (ControlsFile (modifiersParams ''bogus'')) =
      Inr accessCatalog"
    by (simp add: exampleEnv_def)
  have l3: "json_MarshalIndent exampleEnv (MappingPayload
     (mapping (defaultModificationType (modifiersParams ''bogus'')) cloudDoc accessCatalog)) =
     Inr ''{}''"
    by (simp add: exampleEnv_def)
  have t: "ModifiersParams_ModificationType (modifiersParams ''bogus'') = ''bogus''"
    by (simp add: modifiersParams_def)
  from modification_type_not_validated [OF l1 l2 l3]
  obtain m where m: "fst (handleCreateLayer3ControlModifiers exampleEnv
        (Inr (modifiersParams ''bogus''))) =
      \<lparr>Text = ''{}'', IsError = False, StructuredContent = Some (MappingPayload m)\<rparr>"
    "\<forall>cm \<in> set (ControlModifications m). ModType cm = ''bogus''"
    unfolding t by auto
  from m(2) have "set (map ModType (ControlModifications m)) \<subseteq> {''bogus''}"
    by auto
  with m(1) l1 l2 l3 show ?thesis by simp
qed

section \<open>Properties of the handlers and the loader\<close>

text \<open>
  C8: a call of the control filter with an empty list of labels is answered with the
  error-flagged message that at least one label must be provided, and the handler has
  made no loader call, whatever the file path and the environment.
\<close>

theorem empty_labels_rejected_before_load:
  assumes "Labels params = []"
  shows "handleImportControlsByLabel e (Inr params) =
           (\<lparr>Text = ''At least one label must be provided'', IsError = True,
             StructuredContent = None\<rparr>, [])"
  using assms by (simp add: handleImportControlsByLabel_def errorResult_def)

theorem empty_labels_rejected_before_load_witness:
  "Labels (controlsParams []) = [] \<and>
   handleImportControlsByLabel exampleEnv (Inr (controlsParams [])) =
     (\<lparr>Text = ''At least one label must be provided'', IsError = True,
       StructuredContent = None\<rparr>, []) \<and>
   snd (handleImportControlsByLabel exampleEnv (Inr (controlsParams [''tlp_clear'']))) =
     [Call_LoadFile ''file:///data/controls.yaml'']"
proof -
  have h: "Labels (controlsParams []) = []"
    by (simp add: controlsParams_def)
  have loaded: "snd (handleImportControlsByLabel exampleEnv
      (Inr (controlsParams [''tlp_clear'']))) = [Call_LoadFile ''file:///data/controls.yaml'']"
    by (simp add: handleImportControlsByLabel_def controlsParams_def exampleEnv_def)
  from h empty_labels_rejected_before_load [OF h, of exampleEnv] loaded
  show ?thesis by simp
qed

text \<open>
  A reference that \<open>url.Parse\<close> accepts and that has no scheme is refused: the loader
  reaches its last line, whatever the file system holds.
\<close>

lemma loadLayer1Document_no_scheme:
  "url_Parse e filePath = Inr parsedURL \<Longrightarrow> Scheme parsedURL = [] \<Longrightarrow>
   loadLayer1Document e filePath = Inl ''unsupported scheme: ''"
  by (simp add: loadLayer1Document_def)

text \<open>
  C2 fails on the code. The bare path \<open>/data/guidance.yaml\<close> parses as a URL without
  a scheme, and the loader answers \<open>unsupported scheme\<close> although the file is there and
  decodes (\<open>loadLayer1FromFile\<close> on the same path gives the document, and so does the
  loader on the \<open>file://\<close> form of the path); the guidance filter reports the load error.
\<close>

theorem bare_path_rejected:
  "loadLayer1Document exampleEnv ''/data/guidance.yaml'' = Inl ''unsupported scheme: '' \<and>
   loadLayer1FromFile exampleEnv ''/data/guidance.yaml'' = Inr cloudDoc \<and>
   loadLayer1Document exampleEnv ''file:///data/guidance.yaml'' = Inr cloudDoc \<and>
   fst (handleImportGuidelinesByCriteria exampleEnv
          (Inr ((criteria [] [] [])\<lparr>GuidelinesParams_FilePath := ''/data/guidance.yaml''\<rparr>))) =
     \<lparr>Text = ''Error loading guidance document: unsupported scheme: '', IsError = True,
      StructuredContent = None\<rparr>"
  by (simp add: handleImportGuidelinesByCriteria_def errorResult_def criteria_def
      loadLayer1Document_def loadLayer1FromFile_def TrimPrefix_def exampleEnv_def)

end
